theory Spec2Isabelle
  imports Complex_Main
begin

section \<open>Python values and exceptions\<close>

text \<open>
  A Python \<open>float\<close> is an IEEE double: a finite value (a real number), an infinity or
  a NaN. Only the comparisons of \<open>time_series\<close> against the constants \<open>-90.0\<close>,
  \<open>90.0\<close>, \<open>-180.0\<close> and \<open>180.0\<close> are modelled; they are exact on doubles.
  Every comparison with a NaN is false.
\<close>

datatype pyfloat = Finite real | PosInf | NegInf | NaN

fun float_lt :: "pyfloat \<Rightarrow> pyfloat \<Rightarrow> bool" where
  "float_lt NaN y = False"
| "float_lt x NaN = False"
| "float_lt (Finite a) (Finite b) = (a < b)"
| "float_lt (Finite a) PosInf = True"
| "float_lt (Finite a) NegInf = False"
| "float_lt PosInf y = False"
| "float_lt NegInf NegInf = False"
| "float_lt NegInf y = True"

definition float_gt :: "pyfloat \<Rightarrow> pyfloat \<Rightarrow> bool" where
  "float_gt x y = float_lt y x"

text \<open>
  The dynamically typed values the client handles: the \<open>attributes\<close> argument of
  \<open>time_series\<close> and the decoded JSON documents. \<open>PStr\<close> is Python 2's \<open>str\<close>;
  a \<open>dict\<close> is an association list (its keys are distinct in a real dictionary).
\<close>

datatype pyval =
    PNone
  | PBool bool
  | PInt int
  | PFloat pyfloat
  | PStr string
  | PList "pyval list"
  | PTuple "pyval list"
  | PDict "(pyval \<times> pyval) list"

text \<open>
  Exceptions. \<open>ValueError\<close> carries its message, \<open>KeyError\<close> the missing key; the
  message texts of exceptions raised inside built-ins (\<open>TypeError\<close>) are not modelled.
  \<open>URLError\<close> stands for what \<open>urllib2.urlopen\<close> raises.
\<close>

datatype exn =
    ValueError string
  | TypeError
  | KeyError string
  | URLError string

text \<open>Truth value testing (\<open>not x\<close>, \<open>x and y\<close>).\<close>

fun truthy :: "pyval \<Rightarrow> bool" where
  "truthy PNone = False"
| "truthy (PBool b) = b"
| "truthy (PInt i) = (i \<noteq> 0)"
| "truthy (PFloat f) = (f \<noteq> Finite 0)"
| "truthy (PStr s) = (s \<noteq> [])"
| "truthy (PList xs) = (xs \<noteq> [])"
| "truthy (PTuple xs) = (xs \<noteq> [])"
| "truthy (PDict d) = (d \<noteq> [])"

text \<open>An optional string argument (\<open>None\<close> or a \<open>str\<close>) tested for truth.\<close>

fun truthy_opt :: "string option \<Rightarrow> bool" where
  "truthy_opt None = False"
| "truthy_opt (Some s) = (s \<noteq> [])"

text \<open>\<open>sep.join(items)\<close> on strings.\<close>

fun str_join :: "string \<Rightarrow> string list \<Rightarrow> string" where
  "str_join sep [] = []"
| "str_join sep [x] = x"
| "str_join sep (x # y # ys) = x @ sep @ str_join sep (y # ys)"

text \<open>The strings of a sequence all of whose items are \<open>str\<close>; \<open>None\<close> otherwise.\<close>

fun strs_of :: "pyval list \<Rightarrow> string list option" where
  "strs_of [] = Some []"
| "strs_of (PStr s # xs) = (case strs_of xs of None \<Rightarrow> None | Some ss \<Rightarrow> Some (s # ss))"
| "strs_of (x # xs) = None"

text \<open>\<open>sep.join(items)\<close> on a list or tuple: an item that is not a string raises \<open>TypeError\<close>.\<close>

definition py_join :: "string \<Rightarrow> pyval list \<Rightarrow> exn + string" where
  "py_join sep items = (case strs_of items of None \<Rightarrow> Inl TypeError | Some ss \<Rightarrow> Inr (str_join sep ss))"

text \<open>\<open>obj[key]\<close> with a string key: only a \<open>dict\<close> can be subscripted by a string.\<close>

fun getitem :: "pyval \<Rightarrow> string \<Rightarrow> exn + pyval" where
  "getitem (PDict d) k = (case map_of d (PStr k) of None \<Rightarrow> Inl (KeyError k) | Some v \<Rightarrow> Inr v)"
| "getitem x k = Inl TypeError"

text \<open>
  The items a \<open>for\<close> loop or a comprehension visits: the elements of a list or tuple,
  the characters of a string, the keys of a dict; anything else is not iterable.
\<close>

fun iter_items :: "pyval \<Rightarrow> exn + pyval list" where
  "iter_items (PList xs) = Inr xs"
| "iter_items (PTuple xs) = Inr xs"
| "iter_items (PStr s) = Inr (map (\<lambda>c. PStr [c]) s)"
| "iter_items (PDict d) = Inr (map fst d)"
| "iter_items x = Inl TypeError"

section \<open>The library functions the client calls\<close>

record datetime =
  year :: nat
  month :: nat
  day :: nat
  hour :: nat
  minute :: nat
  second :: nat

record date =
  d_year :: nat
  d_month :: nat
  d_day :: nat

text \<open>\<open>datetime.date()\<close>.\<close>

definition date_of :: "datetime \<Rightarrow> date" where
  "date_of dt = \<lparr>d_year = year dt, d_month = month dt, d_day = day dt\<rparr>"

text \<open>
  The built-ins whose code is not part of the client are parameters:
  \<open>urllib2.urlopen(uri).read()\<close>, \<open>json.loads\<close>, the \<open>%f\<close> conversion and
  \<open>datetime.strptime\<close>.
\<close>

record pylib =
  urlopen_read :: "string \<Rightarrow> exn + string"
  json_loads :: "string \<Rightarrow> exn + pyval"
  format_f :: "pyfloat \<Rightarrow> string"
  strptime :: "string \<Rightarrow> string \<Rightarrow> exn + datetime"

section \<open>The client\<close>

record wtss =
  host :: string

text \<open>The network, as far as the client sees it: the URIs it has opened, oldest first.\<close>

type_synonym net = "string list"

text \<open>\<open>_request\<close>: open the URI, read the body, decode it.\<close>

definition request :: "pylib \<Rightarrow> string \<Rightarrow> net \<Rightarrow> (exn + pyval) \<times> net" where
  "request lib uri net =
     (case urlopen_read lib uri of
        Inl e \<Rightarrow> (Inl e, net @ [uri])
      | Inr doc \<Rightarrow> (json_loads lib doc, net @ [uri]))"

definition list_coverages_uri :: "wtss \<Rightarrow> string" where
  "list_coverages_uri self = host self @ ''/wtss/list_coverages''"

definition list_coverages :: "pylib \<Rightarrow> wtss \<Rightarrow> net \<Rightarrow> (exn + pyval) \<times> net" where
  "list_coverages lib self net = request lib (list_coverages_uri self) net"

definition describe_coverage_uri :: "wtss \<Rightarrow> string \<Rightarrow> string" where
  "describe_coverage_uri self cv_name = host self @ ''/wtss/describe_coverage?name='' @ cv_name"

definition describe_coverage :: "pylib \<Rightarrow> wtss \<Rightarrow> string \<Rightarrow> net \<Rightarrow> (exn + pyval) \<times> net" where
  "describe_coverage lib self cv_name net = request lib (describe_coverage_uri self cv_name) net"

text \<open>
  Lines 108 to 111 of \<open>time_series\<close>: a list or tuple is joined with commas, a string
  is kept, any other type is refused.
\<close>

fun attributes_str :: "pyval \<Rightarrow> exn + string" where
  "attributes_str (PList xs) = py_join '','' xs"
| "attributes_str (PTuple xs) = py_join '','' xs"
| "attributes_str (PStr s) = Inr s"
| "attributes_str x = Inl (ValueError ''attributes must be a list, tuple or string'')"

text \<open>The first format of \<open>time_series\<close>, with the four mandatory parameters.\<close>

definition base_query :: "pylib \<Rightarrow> wtss \<Rightarrow> string \<Rightarrow> string \<Rightarrow> pyfloat \<Rightarrow> pyfloat \<Rightarrow> string" where
  "base_query lib self cv_name attrs latitude longitude =
     host self @ ''/wtss/time_series?coverage='' @ cv_name @ ''&attributes='' @ attrs
       @ ''&latitude='' @ format_f lib latitude @ ''&longitude='' @ format_f lib longitude"

text \<open>
  \<open>time_series\<close> up to its last line: the checks, in the order of the source, and the
  query string; the result is the exception raised or the URI to request.
\<close>

definition time_series_uri ::
  "pylib \<Rightarrow> wtss \<Rightarrow> string \<Rightarrow> pyval \<Rightarrow> pyfloat \<Rightarrow> pyfloat \<Rightarrow> string option \<Rightarrow> string option
     \<Rightarrow> exn + string" where
  "time_series_uri lib self cv_name attributes latitude longitude start_date end_date =
     (if cv_name = [] then Inl (ValueError ''Missing coverage name.'')
      else if \<not> truthy attributes then Inl (ValueError ''Missing coverage attributes.'')
      else case attributes_str attributes of
        Inl e \<Rightarrow> Inl e
      | Inr attrs \<Rightarrow>
          if float_lt latitude (Finite (- 90)) \<or> float_gt latitude (Finite 90)
          then Inl (ValueError ''latitude is out-of range!'')
          else if float_lt longitude (Finite (- 180)) \<or> float_gt longitude (Finite 180)
          then Inl (ValueError ''longitude is out-of range!'')
          else
            let query_str = base_query lib self cv_name attrs latitude longitude
            in if truthy_opt start_date \<and> truthy_opt end_date
               then Inr (query_str @ ''&start='' @ the start_date @ ''&end='' @ the end_date)
               else Inr query_str)"

definition time_series ::
  "pylib \<Rightarrow> wtss \<Rightarrow> string \<Rightarrow> pyval \<Rightarrow> pyfloat \<Rightarrow> pyfloat \<Rightarrow> string option \<Rightarrow> string option
     \<Rightarrow> net \<Rightarrow> (exn + pyval) \<times> net" where
  "time_series lib self cv_name attributes latitude longitude start_date end_date net =
     (case time_series_uri lib self cv_name attributes latitude longitude start_date end_date of
        Inl e \<Rightarrow> (Inl e, net)
      | Inr query_str \<Rightarrow> request lib query_str net)"

text \<open>The comprehension of \<open>timeline\<close>: each entry is parsed in turn, the first failure is raised.\<close>

fun parse_dates :: "pylib \<Rightarrow> string \<Rightarrow> pyval list \<Rightarrow> exn + date list" where
  "parse_dates lib fmt [] = Inr []"
| "parse_dates lib fmt (PStr t # ts) =
     (case strptime lib t fmt of
        Inl e \<Rightarrow> Inl e
      | Inr dt \<Rightarrow> (case parse_dates lib fmt ts of Inl e \<Rightarrow> Inl e | Inr ds \<Rightarrow> Inr (date_of dt # ds)))"
| "parse_dates lib fmt (x # ts) = Inl TypeError"

definition timeline :: "pylib \<Rightarrow> pyval \<Rightarrow> string \<Rightarrow> exn + date list" where
  "timeline lib doc fmt =
     (case getitem doc ''result'' of
        Inl e \<Rightarrow> Inl e
      | Inr res \<Rightarrow>
          (case getitem res ''timeline'' of
             Inl e \<Rightarrow> Inl e
           | Inr str_timeline \<Rightarrow>
               (case iter_items str_timeline of
                  Inl e \<Rightarrow> Inl e
                | Inr ts \<Rightarrow> parse_dates lib fmt ts)))"

text \<open>The message of the \<open>ValueError\<close> that \<open>values\<close> raises.\<close>

definition not_found_msg :: "string \<Rightarrow> string" where
  "not_found_msg attr_name =
     ''Time series for attribute '' @ [CHR 0x27] @ attr_name @ [CHR 0x27] @ '' not found!''"

text \<open>The loop of \<open>values\<close>.\<close>

fun values_loop :: "pyval list \<Rightarrow> string \<Rightarrow> exn + pyval" where
  "values_loop [] attr_name = Inl (ValueError (not_found_msg attr_name))"
| "values_loop (attr # attrs) attr_name =
     (case getitem attr ''attribute'' of
        Inl e \<Rightarrow> Inl e
      | Inr a \<Rightarrow> if a = PStr attr_name then getitem attr ''values''
                 else values_loop attrs attr_name)"

definition values_of :: "pyval \<Rightarrow> string \<Rightarrow> exn + pyval" where
  "values_of doc attr_name =
     (case getitem doc ''result'' of
        Inl e \<Rightarrow> Inl e
      | Inr res \<Rightarrow>
          (case getitem res ''attributes'' of
             Inl e \<Rightarrow> Inl e
           | Inr attrs \<Rightarrow>
               (case iter_items attrs of
                  Inl e \<Rightarrow> Inl e
                | Inr items \<Rightarrow> values_loop items attr_name)))"

section \<open>A simulated server: decoding the query string\<close>

text \<open>
  The specification asks that a coverage name survives being placed in the query string
  and decoded again by the server. The client has no decoder; the definitions of this
  section are the simulated server the specification speaks of, written after the usual
  decoding of a URL query: the query is what follows the first \<open>?\<close> once the fragment is
  cut off, parameters are separated by \<open>&\<close>, a name ends at the first \<open>=\<close>, and in
  names and values \<open>+\<close> stands for a space and \<open>%XY\<close> for the character with that
  hexadecimal code.
\<close>

fun split_on :: "char \<Rightarrow> string \<Rightarrow> string list" where
  "split_on c [] = [[]]"
| "split_on c (x # xs) =
     (if x = c then [] # split_on c xs
      else (case split_on c xs of [] \<Rightarrow> [[x]] | p # ps \<Rightarrow> (x # p) # ps))"

definition hex_val :: "char \<Rightarrow> nat option" where
  "hex_val c =
     (let n = (of_char c :: nat)
      in if 48 \<le> n \<and> n \<le> 57 then Some (n - 48)
         else if 65 \<le> n \<and> n \<le> 70 then Some (n - 55)
         else if 97 \<le> n \<and> n \<le> 102 then Some (n - 87)
         else None)"

definition hex2 :: "string \<Rightarrow> char option" where
  "hex2 cs =
     (case cs of
        h # l # rest \<Rightarrow>
          (case hex_val h of
             None \<Rightarrow> None
           | Some a \<Rightarrow> (case hex_val l of None \<Rightarrow> None | Some b \<Rightarrow> Some (char_of (16 * a + b))))
      | _ \<Rightarrow> None)"

fun unquote_plus :: "string \<Rightarrow> string" where
  "unquote_plus [] = []"
| "unquote_plus (c # cs) =
     (if c = CHR ''+'' then CHR '' '' # unquote_plus cs
      else if c = CHR ''%'' then
        (case hex2 cs of
           Some ch \<Rightarrow> ch # unquote_plus (drop 2 cs)
         | None \<Rightarrow> c # unquote_plus cs)
      else c # unquote_plus cs)"

definition url_query :: "string \<Rightarrow> string" where
  "url_query url =
     drop 1 (dropWhile (\<lambda>c. c \<noteq> CHR ''?'') (takeWhile (\<lambda>c. c \<noteq> CHR ''#'') url))"

text \<open>The decoded value of the first parameter of the URL that has the given name.\<close>

definition server_param :: "string \<Rightarrow> string \<Rightarrow> string option" where
  "server_param key url =
     (case find (\<lambda>p. unquote_plus (takeWhile (\<lambda>c. c \<noteq> CHR ''='') p) = key)
             (split_on CHR ''&'' (url_query url)) of
        None \<Rightarrow> None
      | Some p \<Rightarrow> Some (unquote_plus (drop 1 (dropWhile (\<lambda>c. c \<noteq> CHR ''='') p))))"

section \<open>Test doubles\<close>

text \<open>
  A library with canned answers, a client and a time series document, on which the
  theorems below are exercised: one host is unreachable, one body is not JSON, three
  numbers are formatted and two dates are parsed.
\<close>

definition stub_lib :: pylib where
  "stub_lib = \<lparr>
     urlopen_read = (\<lambda>uri.
        if uri = ''http://down/wtss/list_coverages'' then Inl (URLError ''connection refused'')
        else if uri = ''http://h/wtss/list_coverages'' then Inr ''<html>''
        else Inr ''{}''),
     json_loads = (\<lambda>doc.
        if doc = ''{}'' then Inr (PDict [])
        else Inl (ValueError ''No JSON object could be decoded'')),
     format_f = (\<lambda>f.
        if f = Finite 0 then ''0.000000''
        else if f = Finite (- 12) then ''-12.000000''
        else if f = Finite (- 54) then ''-54.000000''
        else if f = Finite 90 then ''90.000000''
        else if f = Finite (- 180) then ''-180.000000''
        else ''nan''),
     strptime = (\<lambda>t fmt.
        if fmt = ''%Y-%m-%d'' \<and> t = ''2020-01-01''
        then Inr \<lparr>year = 2020, month = 1, day = 1, hour = 0, minute = 0, second = 0\<rparr>
        else if fmt = ''%Y-%m-%d'' \<and> t = ''2020-01-17''
        then Inr \<lparr>year = 2020, month = 1, day = 17, hour = 0, minute = 0, second = 0\<rparr>
        else Inl (ValueError ''time data does not match format''))\<rparr>"

definition stub_client :: wtss where
  "stub_client = \<lparr>host = ''http://h''\<rparr>"

definition red_record :: pyval where
  "red_record = PDict [(PStr ''attribute'', PStr ''red''), (PStr ''values'', PList [PInt 1, PInt 2, PInt 3])]"

definition red_again :: pyval where
  "red_again = PDict [(PStr ''attribute'', PStr ''red''), (PStr ''values'', PList [PInt 9])]"

definition stub_result :: pyval where
  "stub_result = PDict
     [(PStr ''timeline'', PList [PStr ''2020-01-01'', PStr ''2020-01-17'']),
      (PStr ''attributes'', PList [red_record, red_again])]"

definition stub_doc :: pyval where
  "stub_doc = PDict [(PStr ''result'', stub_result)]"

definition empty_result :: pyval where
  "empty_result = PDict [(PStr ''timeline'', PList []), (PStr ''attributes'', PList [])]"

definition empty_doc :: pyval where
  "empty_doc = PDict [(PStr ''result'', empty_result)]"

section \<open>Helper lemmas\<close>

lemma snd_request: "snd (request lib uri net) = net @ [uri]"
  by (simp add: request_def split: sum.splits)

lemma strs_of_map_PStr: "strs_of (map PStr ss) = Some ss"
  by (induction ss) simp_all

lemma values_loop_find:
  assumes "\<forall>r\<in>set recs. \<exists>n vs. getitem r ''attribute'' = Inr (PStr n) \<and> getitem r ''values'' = Inr vs"
  shows "values_loop recs attr_name =
       (case find (\<lambda>r. getitem r ''attribute'' = Inr (PStr attr_name)) recs of
          Some r \<Rightarrow> getitem r ''values''
        | None \<Rightarrow> Inl (ValueError (not_found_msg attr_name)))"
  using assms by (induction recs) auto

lemma parse_dates_ok:
  assumes "\<forall>s\<in>set ss. \<exists>dt. strptime lib s fmt = Inr dt"
  shows "\<exists>ds. parse_dates lib fmt (map PStr ss) = Inr ds
       \<and> list_all2 (\<lambda>s d. \<exists>dt. strptime lib s fmt = Inr dt \<and> d = date_of dt) ss ds"
  using assms by (induction ss) auto

lemma parse_dates_fail:
  "s \<in> set ss \<Longrightarrow> strptime lib s fmt = Inl e \<Longrightarrow>
     \<exists>e'. parse_dates lib fmt (map PStr ss) = Inl e' \<and> (\<exists>s'\<in>set ss. strptime lib s' fmt = Inl e')"
proof (induction ss)
  case Nil
  then show ?case by simp
next
  case (Cons a ss)
  show ?case
  proof (cases "strptime lib a fmt")
    case (Inl e0)
    then show ?thesis by auto
  next
    case (Inr dt)
    with Cons.prems have "s \<in> set ss" by auto
    from Cons.IH [OF this Cons.prems(2)] Inr show ?thesis by auto
  qed
qed

lemma split_on_none: "c \<notin> set s \<Longrightarrow> split_on c s = [s]"
  by (induction s) auto

lemma split_on_first: "c \<notin> set a \<Longrightarrow> split_on c (a @ c # r) = a # split_on c r"
  by (induction a) auto

lemma unquote_plus_plain: "CHR ''+'' \<notin> set s \<Longrightarrow> CHR ''%'' \<notin> set s \<Longrightarrow> unquote_plus s = s"
  by (induction s) auto

lemma takeWhile_skip:
  "c \<notin> set a \<Longrightarrow> takeWhile (\<lambda>x. x \<noteq> c) (a @ b) = a @ takeWhile (\<lambda>x. x \<noteq> c) b"
  by (induction a) auto

lemma dropWhile_skip:
  "c \<notin> set a \<Longrightarrow> dropWhile (\<lambda>x. x \<noteq> c) (a @ b) = dropWhile (\<lambda>x. x \<noteq> c) b"
  by (induction a) auto

lemma url_query_append:
  assumes "CHR ''?'' \<notin> set pre" and "CHR ''#'' \<notin> set pre"
  shows "url_query (pre @ CHR ''?'' # q) = takeWhile (\<lambda>c. c \<noteq> CHR ''#'') q"
proof -
  have "takeWhile (\<lambda>c. c \<noteq> CHR ''#'') (pre @ CHR ''?'' # q)
      = pre @ CHR ''?'' # takeWhile (\<lambda>c. c \<noteq> CHR ''#'') q"
    using assms(2) by (simp add: takeWhile_skip)
  moreover have "dropWhile (\<lambda>c. c \<noteq> CHR ''?'') (pre @ CHR ''?'' # r) = CHR ''?'' # r" for r
    using assms(1) by (simp add: dropWhile_skip)
  ultimately show ?thesis by (simp add: url_query_def)
qed

text \<open>
  The first parameter of a query is decoded to the text that was written there, provided
  that text has none of the characters the decoding gives a meaning to.
\<close>

lemma server_param_first:
  assumes pre: "CHR ''?'' \<notin> set pre" "CHR ''#'' \<notin> set pre"
    and key: "set key \<inter> {CHR ''='', CHR ''&'', CHR ''+'', CHR ''%'', CHR ''#''} = {}"
    and v: "set v \<inter> {CHR ''&'', CHR ''+'', CHR ''%'', CHR ''#''} = {}"
    and rest: "rest = [] \<or> (\<exists>r. rest = CHR ''&'' # r)"
  shows "server_param key (pre @ CHR ''?'' # key @ CHR ''='' # v @ rest) = Some v"
proof -
  let ?p = "key @ CHR ''='' # v"
  let ?t = "takeWhile (\<lambda>c. c \<noteq> CHR ''#'') rest"
  have q: "url_query (pre @ CHR ''?'' # key @ CHR ''='' # v @ rest) = ?p @ ?t"
    using key v by (simp add: url_query_append [OF pre] takeWhile_skip disjoint_iff)
  have amp: "CHR ''&'' \<notin> set ?p" using key v by auto
  have "\<exists>ps. split_on CHR ''&'' (?p @ ?t) = ?p # ps"
    using rest
  proof
    assume "rest = []"
    then show ?thesis using split_on_none [OF amp] by simp
  next
    assume "\<exists>r. rest = CHR ''&'' # r"
    then obtain r where "rest = CHR ''&'' # r" ..
    then show ?thesis using split_on_first [OF amp] by simp
  qed
  then obtain ps where ps: "split_on CHR ''&'' (?p @ ?t) = ?p # ps" ..
  have tk: "takeWhile (\<lambda>c. c \<noteq> CHR ''='') ?p = key"
    using key by (simp add: takeWhile_skip disjoint_iff)
  have dk: "dropWhile (\<lambda>c. c \<noteq> CHR ''='') ?p = CHR ''='' # v"
    using key by (simp add: dropWhile_skip disjoint_iff)
  have uk: "unquote_plus key = key" using key by (intro unquote_plus_plain) auto
  have uv: "unquote_plus v = v" using v by (intro unquote_plus_plain) auto
  show ?thesis
    unfolding server_param_def q ps by (simp add: tk dk uk uv del: takeWhile.simps dropWhile.simps)
qed

text \<open>
  A query made of parameters whose values have no \<open>&\<close> has no parameter but those:
  each is taken up to the next \<open>&\<close>, or dropped with what follows a \<open>#\<close>.
\<close>

lemma takeWhile_stop:
  "c \<in> set a \<Longrightarrow> takeWhile (\<lambda>x. x \<noteq> c) (a @ b) = takeWhile (\<lambda>x. x \<noteq> c) a"
  by (induction a) auto

lemma find_last_param:
  assumes k: "set k \<inter> {CHR ''='', CHR ''&'', CHR ''+'', CHR ''%'', CHR ''#''} = {}"
    and v: "CHR ''&'' \<notin> set v" and ne: "k \<noteq> key"
  shows "find (\<lambda>p. unquote_plus (takeWhile (\<lambda>c. c \<noteq> CHR ''='') p) = key)
           (split_on CHR ''&'' (takeWhile (\<lambda>c. c \<noteq> CHR ''#'') (k @ CHR ''='' # v))) = None"
proof -
  let ?p = "k @ CHR ''='' # takeWhile (\<lambda>c. c \<noteq> CHR ''#'') v"
  have tw: "takeWhile (\<lambda>c. c \<noteq> CHR ''#'') (k @ CHR ''='' # v) = ?p"
    using k by (simp add: takeWhile_skip disjoint_iff)
  have "CHR ''&'' \<notin> set (takeWhile (\<lambda>c. c \<noteq> CHR ''#'') v)"
    using v by (auto dest: set_takeWhileD)
  then have amp: "CHR ''&'' \<notin> set ?p" using k by auto
  have tk: "takeWhile (\<lambda>c. c \<noteq> CHR ''='') ?p = k"
    using k by (simp add: takeWhile_skip disjoint_iff)
  have uk: "unquote_plus k = k" using k by (intro unquote_plus_plain) auto
  show ?thesis
    unfolding tw split_on_none [OF amp] using ne by (simp add: tk uk del: takeWhile.simps)
qed

lemma find_next_param:
  assumes k: "set k \<inter> {CHR ''='', CHR ''&'', CHR ''+'', CHR ''%'', CHR ''#''} = {}"
    and v: "CHR ''&'' \<notin> set v" and ne: "k \<noteq> key"
    and rest: "find (\<lambda>p. unquote_plus (takeWhile (\<lambda>c. c \<noteq> CHR ''='') p) = key)
           (split_on CHR ''&'' (takeWhile (\<lambda>c. c \<noteq> CHR ''#'') r)) = None"
  shows "find (\<lambda>p. unquote_plus (takeWhile (\<lambda>c. c \<noteq> CHR ''='') p) = key)
           (split_on CHR ''&'' (takeWhile (\<lambda>c. c \<noteq> CHR ''#'') (k @ CHR ''='' # v @ CHR ''&'' # r))) = None"
proof (cases "CHR ''#'' \<in> set v")
  case True
  have "takeWhile (\<lambda>c. c \<noteq> CHR ''#'') (k @ CHR ''='' # v @ CHR ''&'' # r)
      = k @ CHR ''='' # takeWhile (\<lambda>c. c \<noteq> CHR ''#'') v"
    using k True by (simp add: takeWhile_skip takeWhile_stop disjoint_iff)
  moreover have "takeWhile (\<lambda>c. c \<noteq> CHR ''#'') (k @ CHR ''='' # v)
      = k @ CHR ''='' # takeWhile (\<lambda>c. c \<noteq> CHR ''#'') v"
    using k by (simp add: takeWhile_skip disjoint_iff)
  ultimately show ?thesis using find_last_param [OF k v ne] by simp
next
  case False
  let ?p = "k @ CHR ''='' # v"
  have tw: "takeWhile (\<lambda>c. c \<noteq> CHR ''#'') (k @ CHR ''='' # v @ CHR ''&'' # r)
      = ?p @ CHR ''&'' # takeWhile (\<lambda>c. c \<noteq> CHR ''#'') r"
    using k False by (simp add: takeWhile_skip disjoint_iff)
  have amp: "CHR ''&'' \<notin> set ?p" using k v by auto
  have tk: "takeWhile (\<lambda>c. c \<noteq> CHR ''='') ?p = k"
    using k by (simp add: takeWhile_skip disjoint_iff)
  have uk: "unquote_plus k = k" using k by (intro unquote_plus_plain) auto
  show ?thesis
    unfolding tw split_on_first [OF amp] using ne rest
    by (simp add: tk uk del: takeWhile.simps)
qed

lemma url_query_no_mark:
  assumes "CHR ''?'' \<notin> set pre"
  shows "url_query (pre @ CHR ''?'' # q) = [] \<or> url_query (pre @ CHR ''?'' # q) = takeWhile (\<lambda>c. c \<noteq> CHR ''#'') q"
proof (cases "CHR ''#'' \<in> set pre")
  case True
  then have "takeWhile (\<lambda>c. c \<noteq> CHR ''#'') (pre @ CHR ''?'' # q) = takeWhile (\<lambda>c. c \<noteq> CHR ''#'') pre"
    by (rule takeWhile_stop)
  moreover have "dropWhile (\<lambda>c. c \<noteq> CHR ''?'') (takeWhile (\<lambda>c. c \<noteq> CHR ''#'') pre) = []"
    using assms by (auto dest: set_takeWhileD)
  ultimately have "url_query (pre @ CHR ''?'' # q) = []"
    unfolding url_query_def by (simp only: drop_Nil)
  then show ?thesis ..
next
  case False
  with assms show ?thesis by (simp add: url_query_append)
qed

lemma base_query_params:
  assumes h: "CHR ''?'' \<notin> set (host self)"
    and v: "CHR ''&'' \<notin> set cv_name" "CHR ''&'' \<notin> set attrs"
      "CHR ''&'' \<notin> set (format_f lib latitude)" "CHR ''&'' \<notin> set (format_f lib longitude)"
    and key: "key \<notin> {[], ''coverage'', ''attributes'', ''latitude'', ''longitude''}"
  shows "server_param key (base_query lib self cv_name attrs latitude longitude) = None"
proof -
  let ?P = "\<lambda>p. unquote_plus (takeWhile (\<lambda>c. c \<noteq> CHR ''='') p) = key"
  let ?q = "''coverage'' @ CHR ''='' # cv_name @ CHR ''&'' #
            ''attributes'' @ CHR ''='' # attrs @ CHR ''&'' #
            ''latitude'' @ CHR ''='' # format_f lib latitude @ CHR ''&'' #
            ''longitude'' @ CHR ''='' # format_f lib longitude"
  have b: "base_query lib self cv_name attrs latitude longitude
         = (host self @ ''/wtss/time_series'') @ CHR ''?'' # ?q"
    by (simp add: base_query_def)
  have 4: "find ?P (split_on CHR ''&'' (takeWhile (\<lambda>c. c \<noteq> CHR ''#'')
             (''longitude'' @ CHR ''='' # format_f lib longitude))) = None"
    using key by (intro find_last_param [OF _ v(4)]) auto
  have 3: "find ?P (split_on CHR ''&'' (takeWhile (\<lambda>c. c \<noteq> CHR ''#'')
             (''latitude'' @ CHR ''='' # format_f lib latitude @ CHR ''&'' #
              ''longitude'' @ CHR ''='' # format_f lib longitude))) = None"
    using key by (intro find_next_param [OF _ v(3) _ 4]) auto
  have 2: "find ?P (split_on CHR ''&'' (takeWhile (\<lambda>c. c \<noteq> CHR ''#'')
             (''attributes'' @ CHR ''='' # attrs @ CHR ''&'' #
              ''latitude'' @ CHR ''='' # format_f lib latitude @ CHR ''&'' #
              ''longitude'' @ CHR ''='' # format_f lib longitude))) = None"
    using key by (intro find_next_param [OF _ v(2) _ 3]) auto
  have 1: "find ?P (split_on CHR ''&'' (takeWhile (\<lambda>c. c \<noteq> CHR ''#'') ?q)) = None"
    using key by (intro find_next_param [OF _ v(1) _ 2]) auto
  have pre: "CHR ''?'' \<notin> set (host self @ ''/wtss/time_series'')"
    using h by simp
  from url_query_no_mark [OF pre, of ?q]
  show ?thesis
  proof
    assume "url_query ((host self @ ''/wtss/time_series'') @ CHR ''?'' # ?q) = []"
    then show ?thesis using key unfolding server_param_def b by auto
  next
    assume "url_query ((host self @ ''/wtss/time_series'') @ CHR ''?'' # ?q)
          = takeWhile (\<lambda>c. c \<noteq> CHR ''#'') ?q"
    then show ?thesis unfolding server_param_def b using 1 by (simp only: option.case)
  qed
qed

section \<open>The attributes parameter\<close>

text \<open>
  C1. When the call passes the checks, the one URI that \<open>time_series\<close> requests carries,
  as its \<open>attributes\<close> parameter, the elements of a list or tuple of strings joined with
  commas, and a string unchanged; joining \<open>[a, b, c]\<close> gives \<open>a,b,c\<close>.
\<close>

theorem attributes_joined:
  assumes "cv_name \<noteq> []"
    and "\<not> float_lt latitude (Finite (- 90))" and "\<not> float_gt latitude (Finite 90)"
    and "\<not> float_lt longitude (Finite (- 180))" and "\<not> float_gt longitude (Finite 180)"
    and "attributes = PList (map PStr ss) \<and> ss \<noteq> [] \<and> joined = str_join '','' ss
         \<or> attributes = PTuple (map PStr ss) \<and> ss \<noteq> [] \<and> joined = str_join '','' ss
         \<or> attributes = PStr joined \<and> joined \<noteq> []"
  shows "snd (time_series lib self cv_name attributes latitude longitude start_date end_date net)
       = net @ [host self @ ''/wtss/time_series?coverage='' @ cv_name
                 @ ''&attributes='' @ joined
                 @ ''&latitude='' @ format_f lib latitude
                 @ ''&longitude='' @ format_f lib longitude
                 @ (if truthy_opt start_date \<and> truthy_opt end_date
                    then ''&start='' @ the start_date @ ''&end='' @ the end_date else [])]
     \<and> str_join '','' [a, b, c] = a @ '','' @ b @ '','' @ c"
  using assms
  by (auto simp: time_series_def time_series_uri_def base_query_def snd_request py_join_def
      strs_of_map_PStr Let_def)

text \<open>The request of the class's own example, with three attributes.\<close>

theorem attributes_joined_witness:
  "snd (time_series stub_lib stub_client ''mod13q1_512'' (PList [PStr ''red'', PStr ''nir'', PStr ''blue''])
          (Finite (- 12)) (Finite (- 54)) (Some []) (Some []) [])
     = [''http://h/wtss/time_series?coverage=mod13q1_512&attributes=red,nir,blue&latitude=-12.000000&longitude=-54.000000'']
   \<and> snd (time_series stub_lib stub_client ''mod13q1_512'' (PStr ''red,nir'')
          (Finite (- 12)) (Finite (- 54)) None None [])
     = [''http://h/wtss/time_series?coverage=mod13q1_512&attributes=red,nir&latitude=-12.000000&longitude=-54.000000'']"
  using attributes_joined [where lib = stub_lib and self = stub_client and cv_name = "''mod13q1_512''"
      and attributes = "PList [PStr ''red'', PStr ''nir'', PStr ''blue'']"
      and ss = "[''red'', ''nir'', ''blue'']" and joined = "''red,nir,blue''"
      and latitude = "Finite (- 12)" and longitude = "Finite (- 54)"
      and start_date = "Some []" and end_date = "Some []" and net = "[]"]
    attributes_joined [where lib = stub_lib and self = stub_client and cv_name = "''mod13q1_512''"
      and attributes = "PStr ''red,nir''" and joined = "''red,nir''"
      and latitude = "Finite (- 12)" and longitude = "Finite (- 54)"
      and start_date = None and end_date = None and net = "[]"]
  by (simp add: stub_lib_def stub_client_def float_gt_def)

section \<open>Validation of the mandatory arguments\<close>

text \<open>
  C2. An empty coverage name is refused with "Missing coverage name."; a non-empty
  coverage name with empty attributes is refused with "Missing coverage attributes.";
  in both cases the network is left as it was: no request has been issued.
\<close>

theorem missing_arguments:
  "time_series lib self [] attributes latitude longitude start_date end_date net
     = (Inl (ValueError ''Missing coverage name.''), net)
   \<and> (cv_name \<noteq> [] \<and> \<not> truthy attributes \<longrightarrow>
        time_series lib self cv_name attributes latitude longitude start_date end_date net
          = (Inl (ValueError ''Missing coverage attributes.''), net))"
  by (simp add: time_series_def time_series_uri_def)

text \<open>The two calls of the specification's examples.\<close>

theorem missing_arguments_witness:
  "time_series stub_lib stub_client [] (PList [PStr ''red'']) (Finite 0) (Finite 0) None None []
     = (Inl (ValueError ''Missing coverage name.''), [])
   \<and> ''cv'' \<noteq> [] \<and> \<not> truthy (PList [])
   \<and> time_series stub_lib stub_client ''cv'' (PList []) (Finite 0) (Finite 0) None None []
     = (Inl (ValueError ''Missing coverage attributes.''), [])"
  using missing_arguments [where lib = stub_lib and self = stub_client and cv_name = "''cv''"
      and attributes = "PList []" and latitude = "Finite 0" and longitude = "Finite 0"
      and start_date = None and end_date = None and net = "[]"]
    missing_arguments [where lib = stub_lib and self = stub_client and cv_name = "''cv''"
      and attributes = "PList [PStr ''red'']" and latitude = "Finite 0" and longitude = "Finite 0"
      and start_date = None and end_date = None and net = "[]"]
  by simp

section \<open>The range checks\<close>

text \<open>
  C3, as the claim states it, fails: the coverage name and the attributes are checked
  before the latitude, so a call with a latitude of 91 is refused with another message
  when its coverage name is empty, and likewise when its attributes are empty or of a
  wrong type.
\<close>

theorem latitude_message_counterexample:
  "float_gt (Finite 91) (Finite 90)
   \<and> fst (time_series stub_lib stub_client [] (PList [PStr ''red'']) (Finite 91) (Finite 0) None None [])
     = Inl (ValueError ''Missing coverage name.'')
   \<and> fst (time_series stub_lib stub_client [] (PList [PStr ''red'']) (Finite 91) (Finite 0) None None [])
     \<noteq> Inl (ValueError ''latitude is out-of range!'')
   \<and> fst (time_series stub_lib stub_client ''cv'' (PList []) (Finite 91) (Finite 0) None None [])
     = Inl (ValueError ''Missing coverage attributes.'')
   \<and> fst (time_series stub_lib stub_client ''cv'' (PInt 7) (Finite 91) (Finite 0) None None [])
     = Inl (ValueError ''attributes must be a list, tuple or string'')"
  by (simp add: time_series_def time_series_uri_def float_gt_def)

text \<open>
  C3, amended. For a call with a non-empty coverage name and with attributes that are a
  non-empty string or a non-empty list or tuple of strings: a latitude below \<open>-90.0\<close>
  or above \<open>90.0\<close> is refused with "latitude is out-of range!"; with the latitude in
  range, a longitude below \<open>-180.0\<close> or above \<open>180.0\<close> is refused with
  "longitude is out-of range!"; a latitude of exactly \<open>-90.0\<close> or \<open>90.0\<close> with a
  longitude of exactly \<open>-180.0\<close> or \<open>180.0\<close> passes all checks. No request is issued
  by a refused call.
\<close>

theorem range_checks:
  assumes "cv_name \<noteq> []" and "truthy attributes" and "attributes_str attributes = Inr attrs"
  shows "(float_lt latitude (Finite (- 90)) \<or> float_gt latitude (Finite 90) \<longrightarrow>
           time_series lib self cv_name attributes latitude longitude start_date end_date net
             = (Inl (ValueError ''latitude is out-of range!''), net))
       \<and> (\<not> float_lt latitude (Finite (- 90)) \<and> \<not> float_gt latitude (Finite 90)
            \<and> (float_lt longitude (Finite (- 180)) \<or> float_gt longitude (Finite 180)) \<longrightarrow>
           time_series lib self cv_name attributes latitude longitude start_date end_date net
             = (Inl (ValueError ''longitude is out-of range!''), net))
       \<and> (latitude \<in> {Finite (- 90), Finite 90} \<and> longitude \<in> {Finite (- 180), Finite 180} \<longrightarrow>
           (\<exists>uri. time_series_uri lib self cv_name attributes latitude longitude start_date end_date
              = Inr uri))"
  using assms
  by (auto simp: time_series_def time_series_uri_def float_gt_def Let_def)

text \<open>A latitude of 90.5, a longitude of -180.5 and the corner (90, -180).\<close>

theorem range_checks_witness:
  "''cv'' \<noteq> [] \<and> truthy (PList [PStr ''red'']) \<and> attributes_str (PList [PStr ''red'']) = Inr ''red''
   \<and> float_gt (Finite (181 / 2)) (Finite 90)
   \<and> time_series stub_lib stub_client ''cv'' (PList [PStr ''red'']) (Finite (181 / 2)) (Finite 0) None None []
       = (Inl (ValueError ''latitude is out-of range!''), [])
   \<and> float_lt (Finite (- 361 / 2)) (Finite (- 180))
   \<and> time_series stub_lib stub_client ''cv'' (PList [PStr ''red'']) (Finite 0) (Finite (- 361 / 2)) None None []
       = (Inl (ValueError ''longitude is out-of range!''), [])
   \<and> (\<exists>uri. time_series_uri stub_lib stub_client ''cv'' (PList [PStr ''red'']) (Finite 90) (Finite (- 180)) None None
         = Inr uri)"
  using range_checks [where lib = stub_lib and self = stub_client and cv_name = "''cv''"
      and attributes = "PList [PStr ''red'']" and attrs = "''red''"
      and latitude = "Finite (181 / 2)" and longitude = "Finite 0"
      and start_date = None and end_date = None and net = "[]"]
    range_checks [where lib = stub_lib and self = stub_client and cv_name = "''cv''"
      and attributes = "PList [PStr ''red'']" and attrs = "''red''"
      and latitude = "Finite 0" and longitude = "Finite (- 361 / 2)"
      and start_date = None and end_date = None and net = "[]"]
    range_checks [where lib = stub_lib and self = stub_client and cv_name = "''cv''"
      and attributes = "PList [PStr ''red'']" and attrs = "''red''"
      and latitude = "Finite 90" and longitude = "Finite (- 180)"
      and start_date = None and end_date = None and net = "[]"]
  by (simp add: py_join_def float_gt_def)

section \<open>The optional dates\<close>

text \<open>
  C4, as the claim states it, fails: with the start date alone, nothing is appended, but
  the attributes, the coverage name and the host are written into the URI as they are,
  so the query string of a call that passes the checks can still carry a \<open>start\<close>
  and an \<open>end\<close> parameter, which the server decodes.
\<close>

theorem dates_omitted_counterexample:
  "truthy_opt (Some ''2020-01-01'') \<noteq> truthy_opt None
   \<and> time_series_uri stub_lib stub_client ''cv'' (PStr ''red&start=1&end=2'') (Finite 0) (Finite 0)
       (Some ''2020-01-01'') None
     = Inr ''http://h/wtss/time_series?coverage=cv&attributes=red&start=1&end=2&latitude=0.000000&longitude=0.000000''
   \<and> server_param ''start''
       ''http://h/wtss/time_series?coverage=cv&attributes=red&start=1&end=2&latitude=0.000000&longitude=0.000000''
     = Some ''1''
   \<and> server_param ''end''
       ''http://h/wtss/time_series?coverage=cv&attributes=red&start=1&end=2&latitude=0.000000&longitude=0.000000''
     = Some ''2''
   \<and> time_series_uri stub_lib stub_client ''cv&end=9'' (PStr ''red'') (Finite 0) (Finite 0)
       (Some ''2020-01-01'') None
     = Inr ''http://h/wtss/time_series?coverage=cv&end=9&attributes=red&latitude=0.000000&longitude=0.000000''
   \<and> server_param ''end''
       ''http://h/wtss/time_series?coverage=cv&end=9&attributes=red&latitude=0.000000&longitude=0.000000''
     = Some ''9''
   \<and> time_series_uri stub_lib \<lparr>host = ''http://h/x?start=1&y=''\<rparr> ''cv'' (PStr ''red'') (Finite 0) (Finite 0)
       (Some ''2020-01-01'') None
     = Inr ''http://h/x?start=1&y=/wtss/time_series?coverage=cv&attributes=red&latitude=0.000000&longitude=0.000000''
   \<and> server_param ''start''
       ''http://h/x?start=1&y=/wtss/time_series?coverage=cv&attributes=red&latitude=0.000000&longitude=0.000000''
     = Some ''1''"
  by (simp add: time_series_uri_def base_query_def server_param_def url_query_def
      stub_client_def stub_lib_def float_gt_def)

text \<open>
  C4, amended. For a call that passes the checks, with \<open>attrs\<close> the attributes as
  transmitted: when both dates are supplied (neither \<open>None\<close> nor empty), the query is
  the four-parameter query followed by \<open>&start=\<close>, the start date, \<open>&end=\<close> and the
  end date, both as given, with no parsing; when exactly one is supplied, nothing is
  appended: the query is the four-parameter query alone, and it has neither a \<open>start\<close>
  nor an \<open>end\<close> parameter provided that the host has no \<open>?\<close> and that the coverage
  name, the transmitted attributes and the formatted latitude and longitude have no
  \<open>&\<close>.
\<close>

theorem dates_appended:
  assumes "time_series_uri lib self cv_name attributes latitude longitude start_date end_date = Inr uri"
  shows "\<exists>attrs. attributes_str attributes = Inr attrs
       \<and> (\<forall>s e. start_date = Some s \<and> s \<noteq> [] \<and> end_date = Some e \<and> e \<noteq> [] \<longrightarrow>
            uri = base_query lib self cv_name attrs latitude longitude @ ''&start='' @ s @ ''&end='' @ e)
       \<and> (truthy_opt start_date \<noteq> truthy_opt end_date \<longrightarrow>
            uri = base_query lib self cv_name attrs latitude longitude
            \<and> (CHR ''?'' \<notin> set (host self) \<and> CHR ''&'' \<notin> set cv_name \<and> CHR ''&'' \<notin> set attrs
                 \<and> CHR ''&'' \<notin> set (format_f lib latitude) \<and> CHR ''&'' \<notin> set (format_f lib longitude)
               \<longrightarrow> server_param ''start'' uri = None \<and> server_param ''end'' uri = None))"
proof -
  from assms obtain attrs where a: "attributes_str attributes = Inr attrs"
    and both: "truthy_opt start_date \<and> truthy_opt end_date \<Longrightarrow>
        uri = base_query lib self cv_name attrs latitude longitude
                @ ''&start='' @ the start_date @ ''&end='' @ the end_date"
    and one: "\<not> (truthy_opt start_date \<and> truthy_opt end_date) \<Longrightarrow>
        uri = base_query lib self cv_name attrs latitude longitude"
    by (auto simp: time_series_uri_def Let_def split: if_splits sum.splits)
  have "server_param ''start'' (base_query lib self cv_name attrs latitude longitude) = None
      \<and> server_param ''end'' (base_query lib self cv_name attrs latitude longitude) = None"
    if "CHR ''?'' \<notin> set (host self)" "CHR ''&'' \<notin> set cv_name" "CHR ''&'' \<notin> set attrs"
      "CHR ''&'' \<notin> set (format_f lib latitude)" "CHR ''&'' \<notin> set (format_f lib longitude)"
    using base_query_params [OF that, of "''start''"] base_query_params [OF that, of "''end''"]
    by simp
  with a both one show ?thesis by auto
qed

text \<open>Both dates given, and the start date alone.\<close>

theorem dates_appended_witness:
  "time_series_uri stub_lib stub_client ''cv'' (PStr ''red'') (Finite 0) (Finite 0)
       (Some ''2020-01-01'') (Some ''not a date'')
     = Inr ''http://h/wtss/time_series?coverage=cv&attributes=red&latitude=0.000000&longitude=0.000000&start=2020-01-01&end=not a date''
   \<and> truthy_opt (Some ''2020-01-01'') \<noteq> truthy_opt None
   \<and> CHR ''?'' \<notin> set (host stub_client) \<and> CHR ''&'' \<notin> set ''cv'' \<and> CHR ''&'' \<notin> set ''red''
   \<and> CHR ''&'' \<notin> set (format_f stub_lib (Finite 0))
   \<and> time_series_uri stub_lib stub_client ''cv'' (PStr ''red'') (Finite 0) (Finite 0)
       (Some ''2020-01-01'') None
     = Inr ''http://h/wtss/time_series?coverage=cv&attributes=red&latitude=0.000000&longitude=0.000000''
   \<and> server_param ''start''
       ''http://h/wtss/time_series?coverage=cv&attributes=red&latitude=0.000000&longitude=0.000000''
     = None
   \<and> server_param ''end''
       ''http://h/wtss/time_series?coverage=cv&attributes=red&latitude=0.000000&longitude=0.000000''
     = None"
proof -
  let ?both = "''http://h/wtss/time_series?coverage=cv&attributes=red&latitude=0.000000&longitude=0.000000&start=2020-01-01&end=not a date''"
  let ?one = "''http://h/wtss/time_series?coverage=cv&attributes=red&latitude=0.000000&longitude=0.000000''"
  have both: "time_series_uri stub_lib stub_client ''cv'' (PStr ''red'') (Finite 0) (Finite 0)
       (Some ''2020-01-01'') (Some ''not a date'') = Inr ?both"
    by (simp add: time_series_uri_def base_query_def stub_lib_def stub_client_def float_gt_def)
  have one: "time_series_uri stub_lib stub_client ''cv'' (PStr ''red'') (Finite 0) (Finite 0)
       (Some ''2020-01-01'') None = Inr ?one"
    by (simp add: time_series_uri_def base_query_def stub_lib_def stub_client_def float_gt_def)
  have h: "CHR ''?'' \<notin> set (host stub_client)" "CHR ''&'' \<notin> set ''cv''" "CHR ''&'' \<notin> set ''red''"
    "CHR ''&'' \<notin> set (format_f stub_lib (Finite 0))"
    by (simp_all add: stub_client_def stub_lib_def)
  from dates_appended [OF one] h
  have "server_param ''start'' ?one = None \<and> server_param ''end'' ?one = None"
    by auto
  with dates_appended [OF both] both one h show ?thesis by simp
qed

section \<open>Looking up the values of an attribute\<close>

text \<open>
  C5. For a document whose \<open>result.attributes\<close> is a list of records, each with an
  \<open>attribute\<close> name and a \<open>values\<close> field, \<open>values\<close> returns the \<open>values\<close> field
  of the first record, in the order of the list, whose name is \<open>attr_name\<close>; when no
  record has that name it raises the error with the message
  "Time series for attribute '<attr_name>' not found!".
\<close>

theorem values_first_match:
  assumes "getitem doc ''result'' = Inr res"
    and "getitem res ''attributes'' = Inr (PList recs)"
    and "\<forall>r\<in>set recs. \<exists>n vs. getitem r ''attribute'' = Inr (PStr n) \<and> getitem r ''values'' = Inr vs"
  shows "values_of doc attr_name =
       (case find (\<lambda>r. getitem r ''attribute'' = Inr (PStr attr_name)) recs of
          Some r \<Rightarrow> getitem r ''values''
        | None \<Rightarrow> Inl (ValueError
            (''Time series for attribute '' @ [CHR 0x27] @ attr_name @ [CHR 0x27] @ '' not found!'')))"
  using assms(1,2) values_loop_find [OF assms(3), of attr_name, unfolded not_found_msg_def]
  by (simp add: values_of_def)

text \<open>Two records named red: the first one is returned; nir is not found.\<close>

theorem values_first_match_witness:
  "getitem stub_doc ''result'' = Inr stub_result
   \<and> getitem stub_result ''attributes'' = Inr (PList [red_record, red_again])
   \<and> getitem red_record ''attribute'' = Inr (PStr ''red'')
   \<and> getitem red_record ''values'' = Inr (PList [PInt 1, PInt 2, PInt 3])
   \<and> getitem red_again ''attribute'' = Inr (PStr ''red'')
   \<and> getitem red_again ''values'' = Inr (PList [PInt 9])
   \<and> values_of stub_doc ''red'' = Inr (PList [PInt 1, PInt 2, PInt 3])
   \<and> values_of stub_doc ''nir''
       = Inl (ValueError (''Time series for attribute '' @ [CHR 0x27] @ ''nir'' @ [CHR 0x27] @ '' not found!''))"
proof -
  have h1: "getitem stub_doc ''result'' = Inr stub_result"
    by (simp add: stub_doc_def)
  have h2: "getitem stub_result ''attributes'' = Inr (PList [red_record, red_again])"
    by (simp add: stub_result_def)
  have h3: "\<forall>r\<in>set [red_record, red_again].
      \<exists>n vs. getitem r ''attribute'' = Inr (PStr n) \<and> getitem r ''values'' = Inr vs"
    by (simp add: red_record_def red_again_def)
  from values_first_match [OF h1 h2 h3, of "''red''"] values_first_match [OF h1 h2 h3, of "''nir''"]
    h1 h2
  show ?thesis by (simp add: red_record_def red_again_def)
qed

section \<open>The timeline\<close>

text \<open>
  C6. For a document whose \<open>result.timeline\<close> is a list of strings: when every entry is
  accepted by \<open>strptime\<close> with the format \<open>fmt\<close>, \<open>timeline\<close> returns one date per
  entry, the i-th date being the date of the i-th entry as parsed; when some entry is
  rejected, \<open>timeline\<close> fails with the error \<open>strptime\<close> raises for a rejected entry.
\<close>

theorem timeline_parsed:
  assumes "getitem doc ''result'' = Inr res"
    and "getitem res ''timeline'' = Inr (PList (map PStr ss))"
  shows "((\<forall>s\<in>set ss. \<exists>dt. strptime lib s fmt = Inr dt) \<longrightarrow>
           (\<exists>ds. timeline lib doc fmt = Inr ds \<and> length ds = length ss
              \<and> (\<forall>i<length ss. \<exists>dt. strptime lib (ss ! i) fmt = Inr dt \<and> ds ! i = date_of dt)))
       \<and> ((\<exists>s\<in>set ss. \<exists>e. strptime lib s fmt = Inl e) \<longrightarrow>
           (\<exists>e. timeline lib doc fmt = Inl e \<and> (\<exists>s\<in>set ss. strptime lib s fmt = Inl e)))"
proof (intro conjI impI)
  assume "\<forall>s\<in>set ss. \<exists>dt. strptime lib s fmt = Inr dt"
  from parse_dates_ok [OF this] obtain ds where
    ds: "parse_dates lib fmt (map PStr ss) = Inr ds"
      "list_all2 (\<lambda>s d. \<exists>dt. strptime lib s fmt = Inr dt \<and> d = date_of dt) ss ds"
    by blast
  from ds(2) have "length ds = length ss"
    and "\<forall>i<length ss. \<exists>dt. strptime lib (ss ! i) fmt = Inr dt \<and> ds ! i = date_of dt"
    by (auto simp: list_all2_conv_all_nth)
  with ds(1) assms
  show "\<exists>ds. timeline lib doc fmt = Inr ds \<and> length ds = length ss
      \<and> (\<forall>i<length ss. \<exists>dt. strptime lib (ss ! i) fmt = Inr dt \<and> ds ! i = date_of dt)"
    by (simp add: timeline_def)
next
  assume "\<exists>s\<in>set ss. \<exists>e. strptime lib s fmt = Inl e"
  then obtain s e where "s \<in> set ss" and "strptime lib s fmt = Inl e" by blast
  from parse_dates_fail [OF this] assms
  show "\<exists>e. timeline lib doc fmt = Inl e \<and> (\<exists>s\<in>set ss. strptime lib s fmt = Inl e)"
    by (simp add: timeline_def)
qed

text \<open>The two dates of the specification's example, and a format that rejects them.\<close>

theorem timeline_parsed_witness:
  "getitem stub_doc ''result'' = Inr stub_result
   \<and> getitem stub_result ''timeline'' = Inr (PList (map PStr [''2020-01-01'', ''2020-01-17'']))
   \<and> strptime stub_lib ''2020-01-01'' ''%Y-%m-%d''
       = Inr \<lparr>year = 2020, month = 1, day = 1, hour = 0, minute = 0, second = 0\<rparr>
   \<and> strptime stub_lib ''2020-01-17'' ''%Y-%m-%d''
       = Inr \<lparr>year = 2020, month = 1, day = 17, hour = 0, minute = 0, second = 0\<rparr>
   \<and> timeline stub_lib stub_doc ''%Y-%m-%d''
       = Inr [\<lparr>d_year = 2020, d_month = 1, d_day = 1\<rparr>, \<lparr>d_year = 2020, d_month = 1, d_day = 17\<rparr>]
   \<and> strptime stub_lib ''2020-01-01'' ''%d/%m/%Y'' = Inl (ValueError ''time data does not match format'')
   \<and> timeline stub_lib stub_doc ''%d/%m/%Y'' = Inl (ValueError ''time data does not match format'')"
proof -
  have h1: "getitem stub_doc ''result'' = Inr stub_result"
    by (simp add: stub_doc_def)
  have h2: "getitem stub_result ''timeline'' = Inr (PList (map PStr [''2020-01-01'', ''2020-01-17'']))"
    by (simp add: stub_result_def)
  have ok: "\<forall>s\<in>set [''2020-01-01'', ''2020-01-17'']. \<exists>dt. strptime stub_lib s ''%Y-%m-%d'' = Inr dt"
    by (simp add: stub_lib_def)
  have bad: "\<exists>s\<in>set [''2020-01-01'', ''2020-01-17'']. \<exists>e. strptime stub_lib s ''%d/%m/%Y'' = Inl e"
    by (auto simp: stub_lib_def)
  have v1: "timeline stub_lib stub_doc ''%Y-%m-%d''
       = Inr [\<lparr>d_year = 2020, d_month = 1, d_day = 1\<rparr>, \<lparr>d_year = 2020, d_month = 1, d_day = 17\<rparr>]"
    by (simp add: timeline_def stub_doc_def stub_result_def stub_lib_def date_of_def)
  from timeline_parsed [OF h1 h2, of stub_lib "''%d/%m/%Y''"] bad
  have v2: "timeline stub_lib stub_doc ''%d/%m/%Y'' = Inl (ValueError ''time data does not match format'')"
    by (auto simp: stub_lib_def)
  from timeline_parsed [OF h1 h2, of stub_lib "''%Y-%m-%d''"] ok
  have "\<exists>ds. timeline stub_lib stub_doc ''%Y-%m-%d'' = Inr ds \<and> length ds = 2"
    by auto
  with h1 h2 v1 v2 show ?thesis by (simp add: stub_lib_def)
qed

text \<open>
  C10. When \<open>result.timeline\<close> is present and is an empty list or tuple, \<open>timeline\<close>
  returns the empty list, whatever the format and whatever \<open>strptime\<close> does.
\<close>

theorem timeline_empty:
  assumes "getitem doc ''result'' = Inr res"
    and "getitem res ''timeline'' = Inr entries"
    and "entries = PList [] \<or> entries = PTuple []"
  shows "timeline lib doc fmt = Inr []"
  using assms by (auto simp: timeline_def)

theorem timeline_empty_witness:
  "getitem empty_doc ''result'' = Inr empty_result
   \<and> getitem empty_result ''timeline'' = Inr (PList [])
   \<and> timeline stub_lib empty_doc ''no format at all'' = Inr []"
proof -
  have h1: "getitem empty_doc ''result'' = Inr empty_result"
    by (simp add: empty_doc_def)
  have h2: "getitem empty_result ''timeline'' = Inr (PList [])"
    by (simp add: empty_result_def)
  from timeline_empty [OF h1 h2, of stub_lib "''no format at all''"] h1 h2
  show ?thesis by simp
qed

section \<open>The type of the attributes\<close>

text \<open>
  C7, as the claim states it, fails: a list with an element that is not a string passes
  the type check, which looks at the type of \<open>attributes\<close> only, and \<open>join\<close> raises
  \<open>TypeError\<close>, not the error with the message of the claim; and a number as attributes
  with an empty coverage name is refused for the coverage name, which is checked first.
\<close>

theorem attributes_type_counterexample:
  "truthy (PList [PInt 1])
   \<and> fst (time_series stub_lib stub_client ''cv'' (PList [PInt 1]) (Finite 0) (Finite 0) None None [])
       = Inl TypeError
   \<and> fst (time_series stub_lib stub_client ''cv'' (PList [PInt 1]) (Finite 0) (Finite 0) None None [])
       \<noteq> Inl (ValueError ''attributes must be a list, tuple or string'')
   \<and> truthy (PInt 7)
   \<and> fst (time_series stub_lib stub_client [] (PInt 7) (Finite 0) (Finite 0) None None [])
       = Inl (ValueError ''Missing coverage name.'')"
  by (simp add: time_series_def time_series_uri_def py_join_def)

text \<open>
  C7, amended. For a call with a non-empty coverage name whose attributes are non-empty
  and are neither a list, nor a tuple, nor a string (a number, a mapping), the call is
  refused with "attributes must be a list, tuple or string", and no request is issued.
\<close>

theorem attributes_type_refused:
  assumes "cv_name \<noteq> []" and "truthy attributes"
    and "\<forall>xs. attributes \<noteq> PList xs" and "\<forall>xs. attributes \<noteq> PTuple xs" and "\<forall>s. attributes \<noteq> PStr s"
  shows "time_series lib self cv_name attributes latitude longitude start_date end_date net
       = (Inl (ValueError ''attributes must be a list, tuple or string''), net)"
  using assms by (cases attributes) (auto simp: time_series_def time_series_uri_def)

text \<open>A number and a mapping.\<close>

theorem attributes_type_refused_witness:
  "''cv'' \<noteq> [] \<and> truthy (PInt 7) \<and> truthy (PDict [(PStr ''red'', PInt 1)])
   \<and> time_series stub_lib stub_client ''cv'' (PInt 7) (Finite 0) (Finite 0) None None []
       = (Inl (ValueError ''attributes must be a list, tuple or string''), [])
   \<and> time_series stub_lib stub_client ''cv'' (PDict [(PStr ''red'', PInt 1)]) (Finite 0) (Finite 0) None None []
       = (Inl (ValueError ''attributes must be a list, tuple or string''), [])"
  using attributes_type_refused [where lib = stub_lib and self = stub_client and cv_name = "''cv''"
      and attributes = "PInt 7" and latitude = "Finite 0" and longitude = "Finite 0"
      and start_date = None and end_date = None and net = "[]"]
    attributes_type_refused [where lib = stub_lib and self = stub_client and cv_name = "''cv''"
      and attributes = "PDict [(PStr ''red'', PInt 1)]" and latitude = "Finite 0" and longitude = "Finite 0"
      and start_date = None and end_date = None and net = "[]"]
  by simp

section \<open>The coverage name in the query string\<close>

text \<open>
  C8, as the claim states it, fails: the client writes the coverage name into the query
  as it is, so an \<open>&\<close> in the name ends the parameter, and the server decodes what comes
  before it.
\<close>

theorem coverage_roundtrip_counterexample:
  "server_param ''name'' (describe_coverage_uri stub_client ''a&b'') = Some ''a''
   \<and> time_series_uri stub_lib stub_client ''a&b'' (PStr ''red'') (Finite 0) (Finite 0) None None
       = Inr ''http://h/wtss/time_series?coverage=a&b&attributes=red&latitude=0.000000&longitude=0.000000''
   \<and> server_param ''coverage''
        ''http://h/wtss/time_series?coverage=a&b&attributes=red&latitude=0.000000&longitude=0.000000''
       = Some ''a''
   \<and> Some ''a'' \<noteq> Some ''a&b''"
  by (simp add: describe_coverage_uri_def time_series_uri_def base_query_def server_param_def
      url_query_def stub_client_def stub_lib_def float_gt_def)

text \<open>
  C8, amended. The coverage name is written into the query without any encoding. For a
  host without \<open>?\<close> and \<open>#\<close> and a coverage name without \<open>&\<close>, \<open>+\<close>,
  \<open>%\<close> and \<open>#\<close> (a space is allowed), decoding the \<open>name\<close> parameter of the URI
  of \<open>describe_coverage\<close>, and the \<open>coverage\<close> parameter of the URI of a
  \<open>time_series\<close> call that passes the checks, gives back the coverage name.
\<close>

theorem coverage_roundtrip:
  assumes "CHR ''?'' \<notin> set (host self)" and "CHR ''#'' \<notin> set (host self)"
    and "set cv_name \<inter> {CHR ''&'', CHR ''+'', CHR ''%'', CHR ''#''} = {}"
  shows "server_param ''name'' (describe_coverage_uri self cv_name) = Some cv_name
       \<and> (time_series_uri lib self cv_name attributes latitude longitude start_date end_date = Inr uri
            \<longrightarrow> server_param ''coverage'' uri = Some cv_name)"
proof (intro conjI impI)
  show "server_param ''name'' (describe_coverage_uri self cv_name) = Some cv_name"
    using server_param_first [of "host self @ ''/wtss/describe_coverage''" "''name''" cv_name "[]"] assms
    by (simp add: describe_coverage_uri_def)
next
  assume "time_series_uri lib self cv_name attributes latitude longitude start_date end_date = Inr uri"
  then obtain r where "uri = host self @ ''/wtss/time_series?coverage='' @ cv_name @ CHR ''&'' # r"
    by (auto simp: time_series_uri_def base_query_def Let_def split: if_splits sum.splits)
  then show "server_param ''coverage'' uri = Some cv_name"
    using server_param_first [of "host self @ ''/wtss/time_series''" "''coverage''" cv_name "CHR ''&'' # r"] assms
    by simp
qed

text \<open>A coverage name with a space.\<close>

theorem coverage_roundtrip_witness:
  "CHR ''?'' \<notin> set (host stub_client) \<and> CHR ''#'' \<notin> set (host stub_client)
   \<and> set ''my cov'' \<inter> {CHR ''&'', CHR ''+'', CHR ''%'', CHR ''#''} = {}
   \<and> server_param ''name'' (describe_coverage_uri stub_client ''my cov'') = Some ''my cov''
   \<and> time_series_uri stub_lib stub_client ''my cov'' (PStr ''red'') (Finite 0) (Finite 0) None None
       = Inr ''http://h/wtss/time_series?coverage=my cov&attributes=red&latitude=0.000000&longitude=0.000000''
   \<and> server_param ''coverage''
        ''http://h/wtss/time_series?coverage=my cov&attributes=red&latitude=0.000000&longitude=0.000000''
       = Some ''my cov''"
proof -
  have h: "CHR ''?'' \<notin> set (host stub_client)" "CHR ''#'' \<notin> set (host stub_client)"
    by (simp_all add: stub_client_def)
  have c: "set ''my cov'' \<inter> {CHR ''&'', CHR ''+'', CHR ''%'', CHR ''#''} = {}"
    by simp
  have u: "time_series_uri stub_lib stub_client ''my cov'' (PStr ''red'') (Finite 0) (Finite 0) None None
       = Inr ''http://h/wtss/time_series?coverage=my cov&attributes=red&latitude=0.000000&longitude=0.000000''"
    by (simp add: time_series_uri_def base_query_def stub_client_def stub_lib_def float_gt_def)
  from coverage_roundtrip [OF h c, where lib = stub_lib and attributes = "PStr ''red''"
      and latitude = "Finite 0" and longitude = "Finite 0" and start_date = None and end_date = None
      and uri = "''http://h/wtss/time_series?coverage=my cov&attributes=red&latitude=0.000000&longitude=0.000000''"]
    u h c
  show ?thesis by blast
qed

end
